theory Spec2Isabelle
  imports Main "HOL-Library.Signed_Division"
begin

section \<open>JavaScript values and failures\<close>

text \<open>
  A thrown \<^verbatim>\<open>new Error(msg)\<close>, a \<^verbatim>\<open>Promise.reject(msg)\<close> and the exceptions the
  language raises by itself are values of \<open>js_error\<close>; a function that can fail returns
  \<open>'e js_error + 'a\<close>, with \<open>Inl\<close> for the failure. The type \<open>'e\<close> is that of the
  failures of the collaborators a function calls.
\<close>

datatype 'e js_error =
    Error string        \<comment> \<open>\<^verbatim>\<open>throw new Error(msg)\<close>\<close>
  | Reject string       \<comment> \<open>\<^verbatim>\<open>return Promise.reject(msg)\<close>\<close>
  | RangeError string   \<comment> \<open>raised by bigint division by zero\<close>
  | TypeError string    \<comment> \<open>raised by adding a bigint and a value that is none\<close>
  | Raised 'e           \<comment> \<open>raised by a collaborator that is not part of the sources\<close>

text \<open>
  \<^verbatim>\<open>a / b\<close> on bigints truncates towards zero and throws a RangeError when \<open>b\<close> is \<open>0n\<close>.
\<close>

definition bigintDiv :: "int \<Rightarrow> int \<Rightarrow> 'e js_error + int" where
  "bigintDiv a b = (if b = 0 then Inl (RangeError ''Division by zero'') else Inr (a sdiv b))"

section \<open>Parameter tables\<close>

text \<open>
  The members of the enumeration \<^verbatim>\<open>DatumParameterKey\<close> that the sources name.
\<close>

datatype DatumParameterKey =
    SenderPubKeyHash | SenderStakingKeyHash | Action | MinReceive
  | SwapInTokenPolicyId | SwapInTokenAssetName | SwapInAmount
  | SwapOutTokenPolicyId | SwapOutTokenAssetName | DepositFee | BatcherFee
  | TokenPolicyId | TokenAssetName | Unknown | Expiration
  | PoolIdentifier | PoolAssetAPolicyId | PoolAssetAAssetName
  | PoolAssetBPolicyId | PoolAssetBAssetName | ReserveA | ReserveB
  | TotalLpTokens | LpFee | LpFeeNumerator | LpFeeDenominator

text \<open>
  Modelled from the spec: the type \<^verbatim>\<open>DatumParameters\<close> of \<^verbatim>\<open>@app/types\<close> is not part of
  the sources. A parameter table (section 3) maps a key to a byte string or to an
  arbitrary-precision integer; a key that is absent, or bound to \<^verbatim>\<open>undefined\<close>, reads as
  \<open>None\<close>.
\<close>

datatype pvalue = VBytes string | VInt int

type_synonym 'k ParameterTable = "'k \<rightharpoonup> pvalue"

text \<open>JavaScript's truthiness of a table entry: none, the empty string and zero are falsy.\<close>

fun truthy :: "pvalue option \<Rightarrow> bool" where
  "truthy None = False"
| "truthy (Some (VBytes b)) = (b \<noteq> [])"
| "truthy (Some (VInt n)) = (n \<noteq> 0)"

section \<open>Tokens and liquidity pools\<close>

text \<open>
  \<^verbatim>\<open>Token = Asset | 'lovelace'\<close>. An asset is built as
  \<^verbatim>\<open>new Asset(policyId, assetName)\<close> from table entries, which the source passes on
  unchecked (\<^verbatim>\<open>as string\<close>).
\<close>

datatype Token = Lovelace | Asset "pvalue option" "pvalue option"

text \<open>
  The fields of \<^verbatim>\<open>LiquidityPool\<close> that the swap formulas read. \<^verbatim>\<open>poolFeePercent\<close> is a
  JavaScript number (an IEEE double); its type is left open as \<open>'n\<close>.
\<close>

record 'n LiquidityPool =
  assetA :: Token
  assetB :: Token
  reserveA :: int
  reserveB :: int
  poolFeePercent :: 'n

section \<open>Swap formulas of \<^verbatim>\<open>saturnswap.ts\<close>\<close>

text \<open>
  The file holds two bodies of the class \<^verbatim>\<open>SaturnSwap\<close>. The first (lines 27 to 243)
  prices swaps with the constant-product formulas; the second (lines 327 to 557) is the
  limit-order body, whose members carry the suffix \<open>_clob\<close> here where they differ.

  Two things the formulas use are not part of the sources and are parameters:
  \<^item> \<open>feeBps\<close> stands for
    \<^verbatim>\<open>p => BigInt(Math.round((p / 100) * Number(poolFeeMultiplier)))\<close>, which is computed
    in double precision and throws a RangeError on a number that is not finite;
  \<^item> \<open>correspondingReserves\<close> is the helper of \<^verbatim>\<open>@app/utils\<close>, which returns the
    pool's two reserves, the given token's reserve first.
\<close>

definition poolFeeMultiplier :: int where
  "poolFeeMultiplier = 10000"

definition estimatedGive ::
  "('n \<Rightarrow> 'e js_error + int) \<Rightarrow> ('n LiquidityPool \<Rightarrow> Token \<Rightarrow> int \<times> int) \<Rightarrow>
   'n LiquidityPool \<Rightarrow> Token \<Rightarrow> int \<Rightarrow> 'e js_error + int" where
  "estimatedGive feeBps correspondingReserves liquidityPool swapOutToken swapOutAmount =
    (case feeBps (poolFeePercent liquidityPool) of
       Inl e \<Rightarrow> Inl e
     | Inr fee \<Rightarrow>
        (let poolFeeModifier = poolFeeMultiplier - fee;
             (reserveOut, reserveIn) = correspondingReserves liquidityPool swapOutToken;
             swapInNumerator = swapOutAmount * reserveIn * poolFeeMultiplier;
             swapInDenominator = (reserveOut - swapOutAmount) * poolFeeModifier
         in case bigintDiv swapInNumerator swapInDenominator of
              Inl e \<Rightarrow> Inl e
            | Inr q \<Rightarrow> Inr (q + 1)))"

definition estimatedReceive ::
  "('n \<Rightarrow> 'e js_error + int) \<Rightarrow> ('n LiquidityPool \<Rightarrow> Token \<Rightarrow> int \<times> int) \<Rightarrow>
   'n LiquidityPool \<Rightarrow> Token \<Rightarrow> int \<Rightarrow> 'e js_error + int" where
  "estimatedReceive feeBps correspondingReserves liquidityPool swapInToken swapInAmount =
    (case feeBps (poolFeePercent liquidityPool) of
       Inl e \<Rightarrow> Inl e
     | Inr fee \<Rightarrow>
        (let poolFeeModifier = poolFeeMultiplier - fee;
             (reserveIn, reserveOut) = correspondingReserves liquidityPool swapInToken;
             swapOutNumerator = swapInAmount * reserveOut * poolFeeModifier;
             swapOutDenominator = swapInAmount * poolFeeModifier + reserveIn * poolFeeMultiplier
         in bigintDiv swapOutNumerator swapOutDenominator))"

text \<open>The limit-order body throws in both members, whatever the arguments.\<close>

definition estimatedGive_clob :: "'n LiquidityPool \<Rightarrow> Token \<Rightarrow> int \<Rightarrow> 'e js_error + int" where
  "estimatedGive_clob liquidityPool swapOutToken swapOutAmount =
    Inl (Error ''SaturnSwap is a limit-order DEX. Use order book queries to determine swap amounts.'')"

definition estimatedReceive_clob :: "'n LiquidityPool \<Rightarrow> Token \<Rightarrow> int \<Rightarrow> 'e js_error + int" where
  "estimatedReceive_clob liquidityPool swapInToken swapInAmount =
    Inl (Error ''SaturnSwap is a limit-order DEX. Use order book queries to determine swap amounts.'')"




text \<open>
  A pool and the two parameters at concrete values, for evaluating the formulas: reserves
  of 1000000 and 2000000, a fee of 30 basis points, and the reserves returned with the
  given token's first.
\<close>

definition examplePool :: "unit LiquidityPool" where
  "examplePool = \<lparr>assetA = Lovelace, assetB = Asset (Some (VBytes ''ab'')) (Some (VBytes ''cd'')),
     reserveA = 1000000, reserveB = 2000000, poolFeePercent = ()\<rparr>"

definition exampleFeeBps :: "unit \<Rightarrow> unit js_error + int" where
  "exampleFeeBps p = Inr 30"

definition exampleReserves :: "unit LiquidityPool \<Rightarrow> Token \<Rightarrow> int \<times> int" where
  "exampleReserves liquidityPool token =
    (if token = assetA liquidityPool then (reserveA liquidityPool, reserveB liquidityPool)
     else (reserveB liquidityPool, reserveA liquidityPool))"

section \<open>The datum codec\<close>

text \<open>
  The class \<^verbatim>\<open>DefinitionBuilder\<close> of \<^verbatim>\<open>@app/definition-builder\<close> (\<^verbatim>\<open>loadDefinition\<close>,
  \<^verbatim>\<open>pushParameters\<close>, \<^verbatim>\<open>pullParameters\<close>) and the types \<^verbatim>\<open>DefinitionConstr\<close> and
  \<^verbatim>\<open>DefinitionField\<close> are not part of the sources. The codec of this section follows
  sections 3, 4.1 and 4.2 of the specification; the schemas at its end are those of the
  sources.
\<close>

text \<open>
  Modelled from the spec: the schema type, in place of \<^verbatim>\<open>DefinitionConstr\<close> and
  \<^verbatim>\<open>DefinitionField\<close>. A schema node (sections 3 and 4.1) is a constructor with a tag and
  an ordered list of fields, a bytes leaf or an integer leaf, each leaf naming a parameter
  key. A leaf declared optional carries the tags of its "none" and "some" variants and
  the kind of the value it wraps.
\<close>

datatype kind = BytesKind | IntKind

datatype 'k SchemaNode =
    Constructor nat "'k SchemaNode list"
  | BytesField 'k
  | IntField 'k
  | OptionalField nat nat kind 'k   \<comment> \<open>the "none" tag, the "some" tag, the leaf\<close>

text \<open>
  Modelled from the spec: the datum that \<^verbatim>\<open>DefinitionBuilder\<close> holds after a push. An
  encoded datum (section 3) mirrors the schema after substitution: a constructor with a
  concrete tag and concrete children, a byte string or an integer. Its failures are those
  of sections 4.2 and 7; \<^verbatim>\<open>MalformedWire\<close> belongs to the wire form, which is left out.
\<close>

datatype EncodedDatum =
    DConstr nat "EncodedDatum list"
  | DBytes string
  | DInt int

datatype 'k codec_error = MissingParameter 'k | SchemaMismatch

text \<open>
  Modelled from the spec: the leaf case of \<^verbatim>\<open>pushParameters\<close>. A leaf (section 4.2) looks
  its key up in the table and fails with \<open>MissingParameter\<close> when the key is absent. A
  byte field takes a byte string as it is and an integer field an integer, with no
  re-encoding: an entry of the other kind is no parameter for the leaf.
\<close>

fun encodeLeaf :: "kind \<Rightarrow> 'k \<Rightarrow> 'k ParameterTable \<Rightarrow> 'k codec_error + EncodedDatum" where
  "encodeLeaf BytesKind key params =
    (case params key of Some (VBytes b) \<Rightarrow> Inr (DBytes b) | _ \<Rightarrow> Inl (MissingParameter key))"
| "encodeLeaf IntKind key params =
    (case params key of Some (VInt n) \<Rightarrow> Inr (DInt n) | _ \<Rightarrow> Inl (MissingParameter key))"

text \<open>
  Modelled from the spec: \<^verbatim>\<open>pushParameters\<close>. \<open>push\<close> (section 4.2) walks the schema: a
  constructor keeps its tag and encodes its fields in order; an optional field whose key
  is absent becomes the "none" variant with no children, and otherwise the "some" variant
  around the encoded value.
\<close>

fun push :: "'k SchemaNode \<Rightarrow> 'k ParameterTable \<Rightarrow> 'k codec_error + EncodedDatum"
  and pushFields :: "'k SchemaNode list \<Rightarrow> 'k ParameterTable \<Rightarrow> 'k codec_error + EncodedDatum list"
where
  "push (Constructor tag fs) params =
    (case pushFields fs params of
       Inl e \<Rightarrow> Inl e
     | Inr children \<Rightarrow> Inr (DConstr tag children))"
| "push (BytesField key) params = encodeLeaf BytesKind key params"
| "push (IntField key) params = encodeLeaf IntKind key params"
| "push (OptionalField noneTag someTag kd key) params =
    (case params key of
       None \<Rightarrow> Inr (DConstr noneTag [])
     | Some v \<Rightarrow>
        (case encodeLeaf kd key params of
           Inl e \<Rightarrow> Inl e
         | Inr d \<Rightarrow> Inr (DConstr someTag [d])))"
| "pushFields [] params = Inr []"
| "pushFields (f # fs) params =
    (case push f params of
       Inl e \<Rightarrow> Inl e
     | Inr d \<Rightarrow>
        (case pushFields fs params of
           Inl e \<Rightarrow> Inl e
         | Inr ds \<Rightarrow> Inr (d # ds)))"

text \<open>
  Modelled from the spec: the leaf case of \<^verbatim>\<open>pullParameters\<close>. A leaf of the datum
  (section 4.2) is recorded under the schema's key; a leaf of the wrong kind is a
  \<open>SchemaMismatch\<close>.
\<close>

fun decodeLeaf ::
  "kind \<Rightarrow> 'k \<Rightarrow> EncodedDatum \<Rightarrow> 'k ParameterTable \<Rightarrow> 'k codec_error + 'k ParameterTable" where
  "decodeLeaf BytesKind key (DBytes b) found = Inr (found(key \<mapsto> VBytes b))"
| "decodeLeaf IntKind key (DInt n) found = Inr (found(key \<mapsto> VInt n))"
| "decodeLeaf kd key d found = Inl SchemaMismatch"

text \<open>
  Modelled from the spec: \<^verbatim>\<open>pullParameters\<close>. \<open>pullInto\<close> (section 4.2) walks schema and
  datum in lock-step, adding to the table found so far. A constructor whose tag or number
  of children differs from the schema's is a \<open>SchemaMismatch\<close>, and a failure returns no
  table. An optional field is its "none" variant with no children, which records nothing,
  or its "some" variant with one child.
\<close>

fun pullInto ::
    "'k SchemaNode \<Rightarrow> EncodedDatum \<Rightarrow> 'k ParameterTable \<Rightarrow> 'k codec_error + 'k ParameterTable"
  and pullFields ::
    "'k SchemaNode list \<Rightarrow> EncodedDatum list \<Rightarrow> 'k ParameterTable \<Rightarrow>
     'k codec_error + 'k ParameterTable"
where
  "pullInto (Constructor tag fs) d found =
    (case d of
       DConstr tag' children \<Rightarrow>
         (if tag' = tag \<and> length children = length fs
          then pullFields fs children found
          else Inl SchemaMismatch)
     | _ \<Rightarrow> Inl SchemaMismatch)"
| "pullInto (BytesField key) d found = decodeLeaf BytesKind key d found"
| "pullInto (IntField key) d found = decodeLeaf IntKind key d found"
| "pullInto (OptionalField noneTag someTag kd key) d found =
    (case d of
       DConstr tag' children \<Rightarrow>
         (if tag' = noneTag \<and> children = [] then Inr found
          else if tag' = someTag \<and> length children = 1
          then decodeLeaf kd key (hd children) found
          else Inl SchemaMismatch)
     | _ \<Rightarrow> Inl SchemaMismatch)"
| "pullFields [] [] found = Inr found"
| "pullFields (f # fs) (d # ds) found =
    (case pullInto f d found of
       Inl e \<Rightarrow> Inl e
     | Inr found' \<Rightarrow> pullFields fs ds found')"
| "pullFields fs ds found = Inl SchemaMismatch"

definition pull :: "'k SchemaNode \<Rightarrow> EncodedDatum \<Rightarrow> 'k codec_error + 'k ParameterTable" where
  "pull schema d = pullInto schema d Map.empty"

text \<open>
  Modelled from the spec: what section 4.2 calls a parameter table valid for a schema.
  Every leaf finds an entry of its kind (an optional leaf may find none), and the table
  has no key that the schema does not name.
\<close>

fun hasKind :: "kind \<Rightarrow> pvalue option \<Rightarrow> bool" where
  "hasKind BytesKind (Some (VBytes b)) = True"
| "hasKind IntKind (Some (VInt n)) = True"
| "hasKind kd v = False"

fun keysOf :: "'k SchemaNode \<Rightarrow> 'k list" where
  "keysOf (Constructor tag fs) = concat (map keysOf fs)"
| "keysOf (BytesField key) = [key]"
| "keysOf (IntField key) = [key]"
| "keysOf (OptionalField noneTag someTag kd key) = [key]"

fun wellKinded :: "'k SchemaNode \<Rightarrow> 'k ParameterTable \<Rightarrow> bool" where
  "wellKinded (Constructor tag fs) params = list_all (\<lambda>f. wellKinded f params) fs"
| "wellKinded (BytesField key) params = hasKind BytesKind (params key)"
| "wellKinded (IntField key) params = hasKind IntKind (params key)"
| "wellKinded (OptionalField noneTag someTag kd key) params =
    (params key = None \<or> hasKind kd (params key))"

definition validFor :: "'k SchemaNode \<Rightarrow> 'k ParameterTable \<Rightarrow> bool" where
  "validFor schema params \<longleftrightarrow> wellKinded schema params \<and> dom params \<subseteq> set (keysOf schema)"

subsection \<open>The schemas of SaturnSwap\<close>

text \<open>
  \<^verbatim>\<open>poolDefinition\<close> (\<^verbatim>\<open>definitions/saturnswap/pool.ts\<close>, lines 84 to 132): the control
  datum, whose third and last fields both name the key \<^verbatim>\<open>LpFee\<close>.
\<close>

definition poolDefinition :: "DatumParameterKey SchemaNode" where
  "poolDefinition = Constructor 2 [
     BytesField PoolAssetAPolicyId,
     BytesField PoolAssetAAssetName,
     IntField LpFee,
     IntField LpFeeNumerator,
     IntField ReserveA,
     BytesField PoolAssetBPolicyId,
     BytesField PoolAssetBAssetName,
     IntField TotalLpTokens,
     IntField LpFeeDenominator,
     IntField ReserveB,
     IntField LpFee]"

text \<open>
  \<^verbatim>\<open>orderDefinition\<close> (the order definition of the limit-order body, lines 511 to 585 of
  \<^verbatim>\<open>unnamed/part_000\<close>): the swap datum. The expiry is the fixed constructor 0 with no
  fields.
\<close>

definition orderDefinition :: "DatumParameterKey SchemaNode" where
  "orderDefinition = Constructor 0 [
     Constructor 0 [
       Constructor 0 [BytesField SenderPubKeyHash],
       Constructor 0 [Constructor 0 [BytesField SenderStakingKeyHash]]],
     BytesField TokenPolicyId,
     BytesField TokenAssetName,
     IntField SwapInAmount,
     BytesField SwapOutTokenPolicyId,
     BytesField SwapOutTokenAssetName,
     IntField MinReceive,
     Constructor 0 [],
     Constructor 0 [BytesField PoolIdentifier, IntField BatcherFee]]"

text \<open>A table valid for \<open>poolDefinition\<close> and one valid for \<open>orderDefinition\<close>.\<close>

definition examplePoolParameters :: "DatumParameterKey ParameterTable" where
  "examplePoolParameters = [
     PoolAssetAPolicyId \<mapsto> VBytes [],
     PoolAssetAAssetName \<mapsto> VBytes [],
     LpFee \<mapsto> VInt 1,
     LpFeeNumerator \<mapsto> VInt 500,
     ReserveA \<mapsto> VInt 6,
     PoolAssetBPolicyId \<mapsto> VBytes ''ab'',
     PoolAssetBAssetName \<mapsto> VBytes ''cd'',
     TotalLpTokens \<mapsto> VInt 2,
     LpFeeDenominator \<mapsto> VInt 700,
     ReserveB \<mapsto> VInt 8]"

definition exampleOrderParameters :: "DatumParameterKey ParameterTable" where
  "exampleOrderParameters = [
     SenderPubKeyHash \<mapsto> VBytes ''aa'',
     SenderStakingKeyHash \<mapsto> VBytes ''bb'',
     TokenPolicyId \<mapsto> VBytes [],
     TokenAssetName \<mapsto> VBytes [],
     SwapInAmount \<mapsto> VInt 5000000,
     SwapOutTokenPolicyId \<mapsto> VBytes ''ab'',
     SwapOutTokenAssetName \<mapsto> VBytes ''cd'',
     MinReceive \<mapsto> VInt 9000000,
     PoolIdentifier \<mapsto> VBytes ''ee'',
     BatcherFee \<mapsto> VInt 0]"

text \<open>
  A table for the sale of 5000000 units of a token: valid for \<open>orderDefinition\<close>, with
  the two keys from which \<^verbatim>\<open>buildSwapOrder\<close> reads the sold asset.
\<close>

definition tokenSaleParameters :: "DatumParameterKey ParameterTable" where
  "tokenSaleParameters = [
     SenderPubKeyHash \<mapsto> VBytes ''aa'',
     SenderStakingKeyHash \<mapsto> VBytes ''bb'',
     TokenPolicyId \<mapsto> VBytes ''ab'',
     TokenAssetName \<mapsto> VBytes ''cd'',
     SwapInAmount \<mapsto> VInt 5000000,
     SwapOutTokenPolicyId \<mapsto> VBytes [],
     SwapOutTokenAssetName \<mapsto> VBytes [],
     MinReceive \<mapsto> VInt 9000000,
     PoolIdentifier \<mapsto> VBytes ''ee'',
     BatcherFee \<mapsto> VInt 0,
     SwapInTokenPolicyId \<mapsto> VBytes ''ab'',
     SwapInTokenAssetName \<mapsto> VBytes ''cd'']"

section \<open>Order placement and cancellation\<close>

text \<open>
  The records of \<^verbatim>\<open>@app/types\<close> as the sources use them. A field that TypeScript marks
  optional is an \<open>option\<close>.
\<close>

record AssetBalance =
  asset :: Token
  quantity :: int

record UTxO =
  address :: string
  datumHash :: "string option"
  assetBalances :: "AssetBalance list"
  txHash :: string
  outputIndex :: nat

record Script =
  scriptType :: string
  script :: string

datatype AddressType = Contract | Base | Enterprise

record SpendUTxO =
  utxo :: UTxO
  redeemer :: "string option"
  validator :: "Script option"
  signer :: "string option"

record PayToAddress =
  payAddress :: string                      \<comment> \<open>\<^verbatim>\<open>address\<close>\<close>
  addressType :: AddressType
  payAssetBalances :: "AssetBalance list"   \<comment> \<open>\<^verbatim>\<open>assetBalances\<close>\<close>
  datum :: "string option"
  isInlineDatum :: bool
  spendUtxos :: "SpendUTxO list"

record SwapFee =
  fee_id :: string            \<comment> \<open>\<^verbatim>\<open>id\<close>\<close>
  fee_title :: string         \<comment> \<open>\<^verbatim>\<open>title\<close>\<close>
  fee_description :: string   \<comment> \<open>\<^verbatim>\<open>description\<close>\<close>
  fee_value :: int            \<comment> \<open>\<^verbatim>\<open>value\<close>\<close>
  isReturned :: bool

text \<open>
  The constants of a \<^verbatim>\<open>SaturnSwap\<close> object that the two builders read; the methods take
  the object as \<open>this\<close>. \<open>saturnSwap\<close> holds the constants of the first class body and
  \<open>saturnSwap_clob\<close> those of the limit-order body.
\<close>

record SaturnSwap =
  poolAddress :: string
  orderAddress :: string
  cancelDatum :: string
  orderScript :: Script

definition saturnSwap :: SaturnSwap where
  "saturnSwap = \<lparr>
     poolAddress = ''addr1_SATURN_POOL_ADDRESS'',
     orderAddress = ''addr1_SATURN_ORDER_ADDRESS'',
     cancelDatum = ''d87a80'',
     orderScript = \<lparr>scriptType = ''PlutusV2'', script = ''SATURN_ORDER_SCRIPT_CBOR''\<rparr>\<rparr>"

definition saturnSwap_clob :: SaturnSwap where
  "saturnSwap_clob = \<lparr>
     poolAddress = ''addr1qy3v66uc8shcm3c4kqkjhjqe76dh3y0cvq3awa6lnjvj52nrlasf2cg9vah02a70g2n93p202prq9hgzxph7zuunjgrqjev82a'',
     orderAddress = ''addr1q80ukhmvgtm498e3h6pwpe52whpdh98yy4qfwup5zqg7lqz75jq4yvpskgayj55xegdp30g5rfynax66r8vgn9fldndskl33sd'',
     cancelDatum = ''d87a8100'',
     orderScript = \<lparr>scriptType = ''PlutusV2'',
       script = ''3cf991c2d5b47006c2106c105332456af4d88321301f292f434ad01b''\<rparr>\<rparr>"

text \<open>
  \<^verbatim>\<open>swapOrderFees\<close> is the same in both class bodies; its three arguments are optional
  and unused.
\<close>

definition swapOrderFees ::
  "'n LiquidityPool option \<Rightarrow> Token option \<Rightarrow> int option \<Rightarrow> SwapFee list" where
  "swapOrderFees liquidityPool swapInToken swapInAmount = [
     \<lparr>fee_id = ''deposit'',
      fee_title = ''Deposit'',
      fee_description = ''Minimum ADA required for the order UTxO. Returned when order is executed or cancelled.'',
      fee_value = 2000000,
      isReturned = True\<rparr>]"

text \<open>
  \<^verbatim>\<open>buildSwapOrder\<close> of the first class body (lines 168 to 205). \<open>fees\<close> is the value of
  \<^verbatim>\<open>this.swapOrderFees()\<close>. Two collaborators are not part of the sources and are
  parameters: \<open>orderCbor\<close> loads the order definition, pushes the parameters and reads the
  CBOR of the result, and \<open>buildSwapOrderPayment\<close> is the method inherited from
  \<^verbatim>\<open>BaseDex\<close>.
\<close>

definition buildSwapOrder ::
  "SaturnSwap \<Rightarrow> SwapFee list \<Rightarrow> (DatumParameterKey ParameterTable \<Rightarrow> 'e + string) \<Rightarrow>
   (DatumParameterKey ParameterTable \<Rightarrow> PayToAddress \<Rightarrow> 'e + PayToAddress) \<Rightarrow>
   'n LiquidityPool \<Rightarrow> DatumParameterKey ParameterTable \<Rightarrow> SpendUTxO list \<Rightarrow>
   'e js_error + PayToAddress list" where
  "buildSwapOrder this fees orderCbor buildSwapOrderPayment liquidityPool swapParameters spendUtxos' =
    (case find (\<lambda>fee. fee_id fee = ''deposit'') fees of
       None \<Rightarrow> Inl (Reject ''Deposit fee not configured.'')
     | Some deposit \<Rightarrow>
        (let swapParameters' = swapParameters(DepositFee \<mapsto> VInt (fee_value deposit))
         in case orderCbor swapParameters' of
              Inl e \<Rightarrow> Inl (Raised e)
            | Inr cbor \<Rightarrow>
               (case buildSwapOrderPayment swapParameters'
                       \<lparr>payAddress = orderAddress this,
                        addressType = Contract,
                        payAssetBalances = [\<lparr>asset = Lovelace, quantity = fee_value deposit\<rparr>],
                        datum = Some cbor,
                        isInlineDatum = True,
                        spendUtxos = spendUtxos'\<rparr> of
                  Inl e \<Rightarrow> Inl (Raised e)
                | Inr payment \<Rightarrow> Inr [payment])))"

text \<open>
  \<^verbatim>\<open>buildSwapOrder\<close> of the limit-order body (lines 472 to 519). The parameters are
  pushed against \<open>orderDefinition\<close>; \<open>getCbor\<close>, the serialisation of the pushed datum
  to its wire form, is a parameter. \<^verbatim>\<open>x || undefined\<close> keeps a truthy \<open>x\<close> and is none
  otherwise. The sum \<^verbatim>\<open>deposit.value + swapInAmount\<close> is evaluated after the push, which
  has then found an integer under \<^verbatim>\<open>SwapInAmount\<close>; anything else cannot be added to a
  bigint.
\<close>

definition buildSwapOrder_clob ::
  "SaturnSwap \<Rightarrow> SwapFee list \<Rightarrow> (EncodedDatum \<Rightarrow> string) \<Rightarrow>
   'n LiquidityPool \<Rightarrow> DatumParameterKey ParameterTable \<Rightarrow> SpendUTxO list \<Rightarrow>
   DatumParameterKey codec_error js_error + PayToAddress list" where
  "buildSwapOrder_clob this fees getCbor liquidityPool swapParameters spendUtxos' =
    (case find (\<lambda>fee. fee_id fee = ''deposit'') fees of
       None \<Rightarrow> Inl (Reject ''Deposit fee not configured.'')
     | Some deposit \<Rightarrow>
        (let swapDatumParameters = swapParameters
               (DepositFee \<mapsto> VInt (fee_value deposit),
                Unknown \<mapsto> VBytes [],
                Expiration := (if truthy (swapParameters Expiration)
                               then swapParameters Expiration else None))
         in case push orderDefinition swapDatumParameters of
              Inl e \<Rightarrow> Inl (Raised e)
            | Inr d \<Rightarrow>
               (case swapParameters SwapInAmount of
                  Some (VInt swapInAmount) \<Rightarrow>
                    (let totalAmount = fee_value deposit + swapInAmount
                     in Inr [\<lparr>payAddress = orderAddress this,
                              addressType = Contract,
                              payAssetBalances = [
                                \<lparr>asset = (if truthy (swapParameters SwapInTokenPolicyId)
                                          then Asset (swapParameters SwapInTokenPolicyId)
                                                     (swapParameters SwapInTokenAssetName)
                                          else Lovelace),
                                 quantity = totalAmount\<rparr>],
                              datum = Some (getCbor d),
                              isInlineDatum = True,
                              spendUtxos = spendUtxos'\<rparr>])
                | _ \<Rightarrow> Inl (TypeError ''Cannot mix BigInt and other types, use explicit conversions''))))"

text \<open>\<^verbatim>\<open>buildCancelSwapOrder\<close> is the same in both class bodies.\<close>

definition buildCancelSwapOrder ::
  "SaturnSwap \<Rightarrow> UTxO list \<Rightarrow> string \<Rightarrow> 'e js_error + PayToAddress list" where
  "buildCancelSwapOrder this txOutputs returnAddress =
    (case find (\<lambda>u. address u = orderAddress this) txOutputs of
       None \<Rightarrow> Inl (Reject ''Unable to find Saturn order UTxO for cancellation.'')
     | Some relevantUtxo \<Rightarrow>
        Inr [\<lparr>payAddress = returnAddress,
              addressType = Base,
              payAssetBalances = assetBalances relevantUtxo,
              datum = None,
              isInlineDatum = False,
              spendUtxos = [\<lparr>utxo = relevantUtxo,
                              redeemer = Some (cancelDatum this),
                              validator = Some (orderScript this),
                              signer = Some returnAddress\<rparr>]\<rparr>])"

text \<open>Outputs for evaluating the cancellation: one at the order address, one elsewhere.\<close>

definition orderUtxo :: UTxO where
  "orderUtxo = \<lparr>address = orderAddress saturnSwap_clob, datumHash = None,
     assetBalances = [\<lparr>asset = Lovelace, quantity = 7000000\<rparr>],
     txHash = ''f00d'', outputIndex = 0\<rparr>"

definition walletUtxo :: UTxO where
  "walletUtxo = \<lparr>address = ''addr1_wallet'', datumHash = None,
     assetBalances = [\<lparr>asset = Lovelace, quantity = 3000000\<rparr>],
     txHash = ''f00d'', outputIndex = 1\<rparr>"

section \<open>The decoders of \<^verbatim>\<open>definitions/saturnswap/decode.ts\<close>\<close>

text \<open>
  \<^verbatim>\<open>decodeSwapDatum\<close> and \<^verbatim>\<open>decodeControlDatum\<close> are lines 361 to 468 of
  \<^verbatim>\<open>unnamed/part_000\<close>.
\<close>

text \<open>
  \<^verbatim>\<open>Data\<close> of \<^verbatim>\<open>lucid-cardano\<close>: a constructor with an index and fields, an integer, a
  byte string, a list or a map. \<^verbatim>\<open>Data.from\<close>, which parses the CBOR text, and
  \<^verbatim>\<open>BigInt\<close> applied to a piece of data are parameters (\<open>dataFrom\<close>, \<open>bigInt\<close>); either may
  throw.
\<close>

datatype Data =
    Constr nat "Data list"
  | DataInt int
  | DataBytes string
  | DataList "Data list"
  | DataMap "(Data \<times> Data) list"

record TokenId =
  policyId :: Data
  assetName :: Data

record SwapToken = TokenId +
  amount :: int

record ControlToken = TokenId +
  minPrice :: int
  maxPrice :: int
  precision :: int

record SwapDatum =
  owner :: Data
  sellToken :: SwapToken
  buyToken :: SwapToken
  expiry :: "int option"
  outputReference :: Data

record ControlDatum =
  tokenOne :: ControlToken
  tokenTwo :: ControlToken
  isActive :: bool

text \<open>
  \<^verbatim>\<open>v.index === 0 ? BigInt(v.fields[0]) : null\<close>: a value that is no constructor has no
  index, and \<^verbatim>\<open>BigInt(undefined)\<close> throws a TypeError.
\<close>

definition expiryOf :: "(Data \<Rightarrow> 'e + int) \<Rightarrow> Data \<Rightarrow> 'e js_error + int option" where
  "expiryOf bigInt valid_before_time =
    (case valid_before_time of
       Constr index vs \<Rightarrow>
         (if index = 0
          then (case vs of
                  [] \<Rightarrow> Inl (TypeError ''Cannot convert undefined to a BigInt'')
                | v # _ \<Rightarrow> (case bigInt v of Inl e \<Rightarrow> Inl (Raised e) | Inr n \<Rightarrow> Inr (Some n)))
          else Inr None)
     | _ \<Rightarrow> Inr None)"

text \<open>The body of the \<^verbatim>\<open>try\<close> block of \<^verbatim>\<open>decodeSwapDatum\<close>.\<close>

definition decodeSwapDatum_try ::
  "(string \<Rightarrow> 'e + Data) \<Rightarrow> (Data \<Rightarrow> 'e + int) \<Rightarrow> string \<Rightarrow> 'e js_error + SwapDatum" where
  "decodeSwapDatum_try dataFrom bigInt datumCbor =
    (case dataFrom datumCbor of
       Inl e \<Rightarrow> Inl (Raised e)
     | Inr (Constr index fs) \<Rightarrow>
         (if index \<noteq> 0 then Inl (Error ''Invalid SwapDatum constructor index'')
          else if length fs \<noteq> 9 then Inl (Error ''Invalid SwapDatum fields'')
          else (case bigInt (fs ! 3) of
                  Inl e \<Rightarrow> Inl (Raised e)
                | Inr amount_sell \<Rightarrow>
                   (case bigInt (fs ! 6) of
                      Inl e \<Rightarrow> Inl (Raised e)
                    | Inr amount_buy \<Rightarrow>
                       (case expiryOf bigInt (fs ! 7) of
                          Inl e \<Rightarrow> Inl e
                        | Inr expiry' \<Rightarrow>
                           Inr \<lparr>owner = fs ! 0,
                                sellToken = \<lparr>policyId = fs ! 1, assetName = fs ! 2,
                                             amount = amount_sell\<rparr>,
                                buyToken = \<lparr>policyId = fs ! 4, assetName = fs ! 5,
                                            amount = amount_buy\<rparr>,
                                expiry = expiry',
                                outputReference = fs ! 8\<rparr>))))
     | Inr _ \<Rightarrow> Inl (Error ''Invalid SwapDatum constructor index''))"

text \<open>
  \<^verbatim>\<open>decodeSwapDatum\<close>: whatever the \<^verbatim>\<open>try\<close> block throws is caught, written to
  \<^verbatim>\<open>console.error\<close> and answered with \<^verbatim>\<open>null\<close>, which is \<open>Inr None\<close>.
\<close>

definition decodeSwapDatum ::
  "(string \<Rightarrow> 'e + Data) \<Rightarrow> (Data \<Rightarrow> 'e + int) \<Rightarrow> string \<Rightarrow> 'x js_error + SwapDatum option" where
  "decodeSwapDatum dataFrom bigInt datumCbor =
    (case decodeSwapDatum_try dataFrom bigInt datumCbor of
       Inl error \<Rightarrow> Inr None
     | Inr decoded \<Rightarrow> Inr (Some decoded))"

text \<open>
  The body of the \<^verbatim>\<open>try\<close> block of \<^verbatim>\<open>decodeControlDatum\<close>, which returns \<^verbatim>\<open>null\<close> by
  itself when the index is not 2.
\<close>

definition decodeControlDatum_try ::
  "(string \<Rightarrow> 'e + Data) \<Rightarrow> (Data \<Rightarrow> 'e + int) \<Rightarrow> string \<Rightarrow>
   'e js_error + ControlDatum option" where
  "decodeControlDatum_try dataFrom bigInt datumCbor =
    (case dataFrom datumCbor of
       Inl e \<Rightarrow> Inl (Raised e)
     | Inr (Constr index fs) \<Rightarrow>
         (if index \<noteq> 2 then Inr None
          else if length fs \<noteq> 11 then Inl (Error ''Invalid ControlDatum fields'')
          else (case bigInt (fs ! 2) of Inl e \<Rightarrow> Inl (Raised e) | Inr minOne \<Rightarrow>
               (case bigInt (fs ! 3) of Inl e \<Rightarrow> Inl (Raised e) | Inr maxOne \<Rightarrow>
               (case bigInt (fs ! 4) of Inl e \<Rightarrow> Inl (Raised e) | Inr precisionOne \<Rightarrow>
               (case bigInt (fs ! 7) of Inl e \<Rightarrow> Inl (Raised e) | Inr minTwo \<Rightarrow>
               (case bigInt (fs ! 8) of Inl e \<Rightarrow> Inl (Raised e) | Inr maxTwo \<Rightarrow>
               (case bigInt (fs ! 9) of Inl e \<Rightarrow> Inl (Raised e) | Inr precisionTwo \<Rightarrow>
                  Inr (Some
                    \<lparr>tokenOne = \<lparr>policyId = fs ! 0, assetName = fs ! 1, minPrice = minOne,
                                  maxPrice = maxOne, precision = precisionOne\<rparr>,
                     tokenTwo = \<lparr>policyId = fs ! 5, assetName = fs ! 6, minPrice = minTwo,
                                  maxPrice = maxTwo, precision = precisionTwo\<rparr>,
                     isActive = (case fs ! 10 of Constr i vs \<Rightarrow> i = 1 | _ \<Rightarrow> False)\<rparr>))))))))
     | Inr _ \<Rightarrow> Inr None)"

definition decodeControlDatum ::
  "(string \<Rightarrow> 'e + Data) \<Rightarrow> (Data \<Rightarrow> 'e + int) \<Rightarrow> string \<Rightarrow>
   'x js_error + ControlDatum option" where
  "decodeControlDatum dataFrom bigInt datumCbor =
    (case decodeControlDatum_try dataFrom bigInt datumCbor of
       Inl error \<Rightarrow> Inr None
     | Inr decoded \<Rightarrow> Inr decoded)"

section \<open>The swap formulas as the specification writes them\<close>

text \<open>
  Section 4.3 of the specification, over the integers, where \<open>div\<close> rounds down.
\<close>

definition amountOut_spec :: "int \<Rightarrow> int \<Rightarrow> int \<Rightarrow> int \<Rightarrow> int" where
  "amountOut_spec reserveIn reserveOut feeBps amountIn =
    (amountIn * (10000 - feeBps) * reserveOut) div
    (amountIn * (10000 - feeBps) + reserveIn * 10000)"

definition amountIn_spec :: "int \<Rightarrow> int \<Rightarrow> int \<Rightarrow> int \<Rightarrow> int" where
  "amountIn_spec reserveIn reserveOut feeBps amountOutWanted =
    (amountOutWanted * reserveIn * 10000) div
    ((reserveOut - amountOutWanted) * (10000 - feeBps)) + 1"

section \<open>Bigint division\<close>

lemma sdiv_nonneg_pos: "0 \<le> a \<Longrightarrow> 0 < b \<Longrightarrow> (a::int) sdiv b = a div b"
  by (cases "a = 0") (simp_all add: signed_divide_int_def)

lemma sdiv_nonneg_neg: "0 \<le> a \<Longrightarrow> b < 0 \<Longrightarrow> (a::int) sdiv b = - (a div (- b))"
  by (cases "a = 0") (simp_all add: signed_divide_int_def)

lemma bigintDiv_nonneg_pos:
  assumes "0 < b" "0 \<le> a" shows "bigintDiv a b = (Inr (a div b) :: 'e js_error + int)"
proof -
  have "b \<noteq> 0" using assms by simp
  then show ?thesis using assms by (simp add: bigintDiv_def sdiv_nonneg_pos)
qed

lemma bigintDiv_nonneg_neg:
  assumes "b < 0" "0 \<le> a" shows "bigintDiv a b = (Inr (- (a div (- b))) :: 'e js_error + int)"
proof -
  have "b \<noteq> 0" using assms by simp
  then show ?thesis using assms by (simp add: bigintDiv_def sdiv_nonneg_neg)
qed

lemma le_div_of_mult_le:
  assumes "(x::int) * d \<le> n" "0 < d" shows "x \<le> n div d"
proof -
  have "(x * d) div d \<le> n div d" using assms by (rule zdiv_mono1)
  then show ?thesis using assms(2) by simp
qed

lemma lt_succ_div_mult:
  assumes "0 < d" shows "(n::int) < (n div d + 1) * d"
proof -
  have "n div d * d + n mod d = n" by simp
  moreover have "n mod d < d" using assms by simp
  ultimately have "n < n div d * d + d" by linarith
  then show ?thesis by (simp add: algebra_simps)
qed

lemma div_mult_le_self:
  assumes "0 < d" shows "(n::int) div d * d \<le> n"
proof -
  have "n div d * d + n mod d = n" by simp
  moreover have "0 \<le> n mod d" using assms by simp
  ultimately show ?thesis by linarith
qed

section \<open>The constant-product formulas\<close>

lemma estimatedReceive_value:
  assumes fee: "feeBps (poolFeePercent lp) = Inr fee" "0 \<le> fee" "fee < 10000"
      and res: "correspondingReserves lp swapInToken = (reserveIn, reserveOut)"
      and pos: "0 < reserveIn" "0 \<le> reserveOut" "0 \<le> amountIn"
  shows "estimatedReceive feeBps correspondingReserves lp swapInToken amountIn =
           Inr (amountOut_spec reserveIn reserveOut fee amountIn)"
proof -
  let ?m = "10000 - fee"
  have m: "0 < ?m" using fee by simp
  have den: "0 < amountIn * ?m + reserveIn * 10000"
    using pos m by (simp add: add_nonneg_pos)
  have num: "0 \<le> amountIn * reserveOut * ?m"
    using pos m by simp
  have "estimatedReceive feeBps correspondingReserves lp swapInToken amountIn =
          bigintDiv (amountIn * reserveOut * ?m) (amountIn * ?m + reserveIn * 10000)"
    by (simp add: estimatedReceive_def fee(1) res poolFeeMultiplier_def Let_def)
  also have "\<dots> = Inr ((amountIn * reserveOut * ?m) div (amountIn * ?m + reserveIn * 10000))"
    using den num by (rule bigintDiv_nonneg_pos)
  finally show ?thesis
    by (simp add: amountOut_spec_def mult.assoc mult.commute mult.left_commute)
qed

lemma estimatedGive_value:
  assumes fee: "feeBps (poolFeePercent lp) = Inr fee" "0 \<le> fee" "fee < 10000"
      and res: "correspondingReserves lp swapOutToken = (reserveOut, reserveIn)"
      and pos: "0 < reserveIn" "0 \<le> want" "want < reserveOut"
  shows "estimatedGive feeBps correspondingReserves lp swapOutToken want =
           Inr (amountIn_spec reserveIn reserveOut fee want)"
proof -
  let ?m = "10000 - fee"
  have m: "0 < ?m" using fee by simp
  have den: "0 < (reserveOut - want) * ?m"
    using pos m by simp
  have num: "0 \<le> want * reserveIn * 10000"
    using pos by simp
  show ?thesis
    by (simp add: estimatedGive_def fee(1) res poolFeeMultiplier_def Let_def amountIn_spec_def
        bigintDiv_nonneg_pos [OF den num])
qed

lemma amountIn_spec_exceeds:
  assumes "0 \<le> fee" "fee < 10000" "want < reserveOut"
  shows "want * reserveIn * 10000 <
           amountIn_spec reserveIn reserveOut fee want * ((reserveOut - want) * (10000 - fee))"
proof -
  have "0 < (reserveOut - want) * (10000 - fee)" using assms by simp
  then show ?thesis unfolding amountIn_spec_def by (rule lt_succ_div_mult)
qed

lemma amountIn_spec_nonneg:
  assumes "0 \<le> fee" "fee < 10000" "0 \<le> want" "want < reserveOut" "0 \<le> reserveIn"
  shows "0 \<le> amountIn_spec reserveIn reserveOut fee want"
proof -
  have "0 < (reserveOut - want) * (10000 - fee)" using assms by simp
  moreover have "0 \<le> want * reserveIn * 10000" using assms by simp
  ultimately have "0 \<le> (want * reserveIn * 10000) div ((reserveOut - want) * (10000 - fee))"
    by (simp add: pos_imp_zdiv_nonneg_iff)
  then show ?thesis by (simp add: amountIn_spec_def)
qed

lemma amountOut_spec_covers:
  assumes fee: "0 \<le> fee" "fee < 10000"
      and pos: "0 < reserveIn" "0 \<le> want" "want < reserveOut"
  shows "want \<le> amountOut_spec reserveIn reserveOut fee
                   (amountIn_spec reserveIn reserveOut fee want)"
proof -
  let ?g = "amountIn_spec reserveIn reserveOut fee want"
  let ?m = "10000 - fee"
  have g0: "0 \<le> ?g" using fee pos by (simp add: amountIn_spec_nonneg)
  have "want * reserveIn * 10000 < ?g * ((reserveOut - want) * ?m)"
    using fee pos by (simp add: amountIn_spec_exceeds)
  then have "want * (?g * ?m + reserveIn * 10000) \<le> ?g * ?m * reserveOut"
    by (simp add: algebra_simps)
  moreover have "0 < ?g * ?m + reserveIn * 10000"
    using g0 fee pos by (simp add: add_nonneg_pos)
  ultimately show ?thesis
    unfolding amountOut_spec_def by (rule le_div_of_mult_le)
qed

lemma amountOut_spec_floor:
  assumes "0 \<le> fee" "fee < 10000" "0 < reserveIn" "0 \<le> amountIn"
  shows "amountOut_spec reserveIn reserveOut fee amountIn *
           (amountIn * (10000 - fee) + reserveIn * 10000) \<le>
         amountIn * (10000 - fee) * reserveOut"
proof -
  have "0 < amountIn * (10000 - fee) + reserveIn * 10000"
    using assms by (simp add: add_nonneg_pos)
  then show ?thesis unfolding amountOut_spec_def by (rule div_mult_le_self)
qed

text \<open>
  C2, as amended. In the constant-product body, for a pool with \<open>reserveIn > 0\<close>,
  \<open>reserveOut \<ge> 0\<close>, a fee of \<open>fee\<close> basis points in \<open>[0, 10000)\<close> and \<open>amountIn \<ge> 0\<close>,
  \<open>estimatedReceive\<close> returns exactly
  \<open>floor (amountIn * (10000 - fee) * reserveOut / (amountIn * (10000 - fee) + reserveIn * 10000))\<close>,
  which is rounded down: the output times the denominator does not exceed the numerator.
  In the limit-order body \<open>estimatedReceive\<close> returns no number: it throws an \<open>Error\<close>
  for every input.
\<close>
theorem estimatedReceive_rounds_down:
  assumes "feeBps (poolFeePercent lp) = Inr fee" "0 \<le> fee" "fee < 10000"
      and "correspondingReserves lp swapInToken = (reserveIn, reserveOut)"
      and "0 < reserveIn" "0 \<le> reserveOut" "0 \<le> amountIn"
  shows "estimatedReceive feeBps correspondingReserves lp swapInToken amountIn =
           (Inr (amountOut_spec reserveIn reserveOut fee amountIn) :: 'e js_error + int)
       \<and> amountOut_spec reserveIn reserveOut fee amountIn *
           (amountIn * (10000 - fee) + reserveIn * 10000) \<le>
           amountIn * (10000 - fee) * reserveOut
       \<and> estimatedReceive_clob lp swapInToken amountIn =
           (Inl (Error ''SaturnSwap is a limit-order DEX. Use order book queries to determine swap amounts.'')
             :: 'e js_error + int)"
  using assms
  by (simp add: estimatedReceive_value amountOut_spec_floor estimatedReceive_clob_def)

theorem estimatedReceive_rounds_down_witness:
  "estimatedReceive exampleFeeBps exampleReserves examplePool Lovelace 10000 = Inr 19743
   \<and> 19743 * (10000 * (10000 - 30) + 1000000 * 10000) \<le> (10000 * (10000 - 30) * 2000000 :: int)"
  using estimatedReceive_rounds_down [of exampleFeeBps examplePool 30 exampleReserves Lovelace
          1000000 2000000 10000]
  by (simp add: exampleFeeBps_def exampleReserves_def examplePool_def amountOut_spec_def)

text \<open>
  The claim as stated fails on the limit-order body, which throws where the formula
  gives 19743.
\<close>

theorem estimatedReceive_clob_counterexample:
  "estimatedReceive_clob examplePool Lovelace 10000 \<noteq>
     (Inr (amountOut_spec 1000000 2000000 30 10000) :: unit js_error + int)"
  by (simp add: estimatedReceive_clob_def)


text \<open>
  C3, as amended. In the constant-product body, for a pool with \<open>reserveIn > 0\<close>,
  \<open>reserveOut > 0\<close>, a fee in \<open>[0, 10000)\<close> and \<open>0 \<le> amountOutWanted < reserveOut\<close>,
  \<open>estimatedGive\<close> returns exactly
  \<open>floor (amountOutWanted * reserveIn * 10000 / ((reserveOut - amountOutWanted) * (10000 - fee))) + 1\<close>,
  which is rounded up: the input times the denominator exceeds the numerator. In the
  limit-order body \<open>estimatedGive\<close> throws an \<open>Error\<close> for every input.
\<close>
theorem estimatedGive_rounds_up:
  assumes "feeBps (poolFeePercent lp) = Inr fee" "0 \<le> fee" "fee < 10000"
      and "correspondingReserves lp swapOutToken = (reserveOut, reserveIn)"
      and "0 < reserveIn" "0 < reserveOut" "0 \<le> amountOutWanted" "amountOutWanted < reserveOut"
  shows "estimatedGive feeBps correspondingReserves lp swapOutToken amountOutWanted =
           (Inr (amountIn_spec reserveIn reserveOut fee amountOutWanted) :: 'e js_error + int)
       \<and> amountOutWanted * reserveIn * 10000 <
           amountIn_spec reserveIn reserveOut fee amountOutWanted *
             ((reserveOut - amountOutWanted) * (10000 - fee))
       \<and> estimatedGive_clob lp swapOutToken amountOutWanted =
           (Inl (Error ''SaturnSwap is a limit-order DEX. Use order book queries to determine swap amounts.'')
             :: 'e js_error + int)"
  using assms
  by (simp add: estimatedGive_value amountIn_spec_exceeds estimatedGive_clob_def)

theorem estimatedGive_rounds_up_witness:
  "estimatedGive exampleFeeBps exampleReserves examplePool
     (Asset (Some (VBytes ''ab'')) (Some (VBytes ''cd''))) 19743 = Inr 10000
   \<and> 19743 * 1000000 * 10000 < (10000 * ((2000000 - 19743) * (10000 - 30)) :: int)"
  using estimatedGive_rounds_up [of exampleFeeBps examplePool 30 exampleReserves
          "Asset (Some (VBytes ''ab'')) (Some (VBytes ''cd''))" 2000000 1000000 19743]
  by (simp add: exampleFeeBps_def exampleReserves_def examplePool_def amountIn_spec_def)

text \<open>
  The claim as stated fails on the limit-order body, which throws where the formula
  gives 10000.
\<close>

theorem estimatedGive_clob_counterexample:
  "estimatedGive_clob examplePool (Asset (Some (VBytes ''ab'')) (Some (VBytes ''cd''))) 19743 \<noteq>
     (Inr (amountIn_spec 1000000 2000000 30 19743) :: unit js_error + int)"
  by (simp add: estimatedGive_clob_def)

text \<open>
  C4, as amended. No member fails with a typed error for insufficient liquidity. In the
  constant-product body, for a pool with reserves \<open>\<ge> 0\<close> and a fee in \<open>[0, 10000)\<close>:
  when \<open>amountOutWanted = reserveOut\<close>, \<open>estimatedGive\<close> fails with the RangeError of a
  bigint division by zero; when \<open>amountOutWanted > reserveOut\<close>, it returns the number
  \<open>1 - floor (amountOutWanted * reserveIn * 10000 / ((amountOutWanted - reserveOut) * (10000 - fee)))\<close>,
  which is at most 1. In the limit-order body it throws an \<open>Error\<close> for every input.
\<close>
theorem estimatedGive_beyond_reserve:
  assumes "feeBps (poolFeePercent lp) = Inr fee" "0 \<le> fee" "fee < 10000"
      and "correspondingReserves lp swapOutToken = (reserveOut, reserveIn)"
      and "0 \<le> reserveIn" "0 \<le> reserveOut"
  shows "(amountOutWanted = reserveOut \<longrightarrow>
            estimatedGive feeBps correspondingReserves lp swapOutToken amountOutWanted =
              (Inl (RangeError ''Division by zero'') :: 'e js_error + int))
       \<and> (reserveOut < amountOutWanted \<longrightarrow>
            estimatedGive feeBps correspondingReserves lp swapOutToken amountOutWanted =
              Inr (1 - (amountOutWanted * reserveIn * 10000) div
                         ((amountOutWanted - reserveOut) * (10000 - fee)))
            \<and> (amountOutWanted * reserveIn * 10000) div
                  ((amountOutWanted - reserveOut) * (10000 - fee)) \<ge> 0)
       \<and> estimatedGive_clob lp swapOutToken amountOutWanted =
           (Inl (Error ''SaturnSwap is a limit-order DEX. Use order book queries to determine swap amounts.'')
             :: 'e js_error + int)"
proof (intro conjI impI)
  assume "amountOutWanted = reserveOut"
  then show "estimatedGive feeBps correspondingReserves lp swapOutToken amountOutWanted =
      (Inl (RangeError ''Division by zero'') :: 'e js_error + int)"
    using assms(1,4) by (simp add: estimatedGive_def Let_def bigintDiv_def)
next
  assume beyond: "reserveOut < amountOutWanted"
  have den: "(reserveOut - amountOutWanted) * (10000 - fee) < 0"
    using beyond assms(3) by (simp add: mult_neg_pos)
  have num: "0 \<le> amountOutWanted * reserveIn * 10000"
    using beyond assms(5,6) by simp
  have neg: "- ((reserveOut - amountOutWanted) * (10000 - fee)) =
               (amountOutWanted - reserveOut) * (10000 - fee)"
    by (simp add: algebra_simps)
  show "estimatedGive feeBps correspondingReserves lp swapOutToken amountOutWanted =
      Inr (1 - (amountOutWanted * reserveIn * 10000) div
                 ((amountOutWanted - reserveOut) * (10000 - fee)))"
    using assms(1,4) bigintDiv_nonneg_neg [OF den num, where ?'e = 'e]
    by (simp add: estimatedGive_def Let_def poolFeeMultiplier_def neg)
  have "0 < (amountOutWanted - reserveOut) * (10000 - fee)"
    using beyond assms(3) by simp
  then show "0 \<le> (amountOutWanted * reserveIn * 10000) div
            ((amountOutWanted - reserveOut) * (10000 - fee))"
    using num by (simp add: pos_imp_zdiv_nonneg_iff)
next
  show "estimatedGive_clob lp swapOutToken amountOutWanted =
      (Inl (Error ''SaturnSwap is a limit-order DEX. Use order book queries to determine swap amounts.'')
        :: 'e js_error + int)"
    by (simp add: estimatedGive_clob_def)
qed

theorem estimatedGive_beyond_reserve_witness:
  "estimatedGive exampleFeeBps exampleReserves examplePool
     (Asset (Some (VBytes ''ab'')) (Some (VBytes ''cd''))) 2000000 =
       Inl (RangeError ''Division by zero'')
   \<and> estimatedGive exampleFeeBps exampleReserves examplePool
     (Asset (Some (VBytes ''ab'')) (Some (VBytes ''cd''))) 3000000 = Inr (- 3009026)"
  using estimatedGive_beyond_reserve [of exampleFeeBps examplePool 30 exampleReserves
          "Asset (Some (VBytes ''ab'')) (Some (VBytes ''cd''))" 2000000 1000000 2000000]
        estimatedGive_beyond_reserve [of exampleFeeBps examplePool 30 exampleReserves
          "Asset (Some (VBytes ''ab'')) (Some (VBytes ''cd''))" 2000000 1000000 3000000]
  by (simp add: exampleFeeBps_def exampleReserves_def examplePool_def)

text \<open>
  The claim as stated fails: asked for 3000000 of a reserve of 2000000, the
  constant-product \<open>estimatedGive\<close> returns a number.
\<close>

theorem estimatedGive_beyond_reserve_counterexample:
  "estimatedGive exampleFeeBps exampleReserves examplePool
     (Asset (Some (VBytes ''ab'')) (Some (VBytes ''cd''))) 3000000 = Inr (- 3009026)"
  by (simp add: estimatedGive_def exampleFeeBps_def exampleReserves_def examplePool_def
      poolFeeMultiplier_def bigintDiv_def signed_divide_int_def)

text \<open>
  C5. For a pool with \<open>reserveIn > 0\<close>, \<open>reserveOut > 0\<close>, a fee in \<open>[0, 10000)\<close> and
  \<open>0 < X < reserveOut\<close>, \<open>estimatedGive\<close> returns an \<open>amountIn\<close>, and \<open>estimatedReceive\<close>
  of that \<open>amountIn\<close> returns an amount that is at least \<open>X\<close>.
\<close>

theorem estimatedGive_covers_wanted:
  assumes "feeBps (poolFeePercent lp) = Inr fee" "0 \<le> fee" "fee < 10000"
      and "correspondingReserves lp swapOutToken = (reserveOut, reserveIn)"
      and "correspondingReserves lp swapInToken = (reserveIn, reserveOut)"
      and "0 < reserveIn" "0 < reserveOut" "0 < X" "X < reserveOut"
  shows "\<exists>amountIn amountOut.
            estimatedGive feeBps correspondingReserves lp swapOutToken X =
              (Inr amountIn :: 'e js_error + int)
          \<and> estimatedReceive feeBps correspondingReserves lp swapInToken amountIn =
              (Inr amountOut :: 'e js_error + int)
          \<and> X \<le> amountOut"
proof -
  let ?g = "amountIn_spec reserveIn reserveOut fee X"
  have give: "estimatedGive feeBps correspondingReserves lp swapOutToken X = Inr ?g"
    using assms by (simp add: estimatedGive_value)
  have "0 \<le> ?g" using assms by (simp add: amountIn_spec_nonneg)
  then have receive: "estimatedReceive feeBps correspondingReserves lp swapInToken ?g =
      Inr (amountOut_spec reserveIn reserveOut fee ?g)"
    using assms by (simp add: estimatedReceive_value)
  have "X \<le> amountOut_spec reserveIn reserveOut fee ?g"
    using assms by (simp add: amountOut_spec_covers)
  with give receive show ?thesis by simp
qed

theorem estimatedGive_covers_wanted_witness:
  "\<exists>amountIn amountOut.
      estimatedGive exampleFeeBps exampleReserves examplePool
        (Asset (Some (VBytes ''ab'')) (Some (VBytes ''cd''))) 19744 = Inr amountIn
    \<and> estimatedReceive exampleFeeBps exampleReserves examplePool Lovelace amountIn = Inr amountOut
    \<and> 19744 \<le> amountOut"
  using estimatedGive_covers_wanted [of exampleFeeBps examplePool 30 exampleReserves
          "Asset (Some (VBytes ''ab'')) (Some (VBytes ''cd''))" 2000000 1000000 Lovelace 19744]
  by (simp add: exampleFeeBps_def exampleReserves_def examplePool_def)

section \<open>The price impact\<close>




section \<open>The codec round trip\<close>

lemma restrict_single_some: "params key = Some v \<Longrightarrow> found ++ (params |` {key}) = found(key \<mapsto> v)"
  by (rule ext) (simp add: map_add_def restrict_map_def)

lemma restrict_single_none: "params key = None \<Longrightarrow> found ++ (params |` {key}) = found"
  by (rule ext) (simp add: map_add_def restrict_map_def)

lemma restrict_union_add: "found ++ (params |` A) ++ (params |` B) = found ++ (params |` (A \<union> B))"
  by (rule ext) (simp add: map_add_def restrict_map_def split: option.splits)

lemma restrict_dom_subset:
  assumes "dom params \<subseteq> A" shows "Map.empty ++ (params |` A) = params"
proof (rule ext)
  fix x
  show "(Map.empty ++ (params |` A)) x = params x"
  proof (cases "x \<in> A")
    case True
    then show ?thesis by simp
  next
    case False
    with assms have "x \<notin> dom params" by blast
    then have "params x = None" by (simp add: domIff)
    with False show ?thesis by simp
  qed
qed

lemma leaf_roundtrip:
  assumes "hasKind kd (params key)"
  shows "\<exists>d. encodeLeaf kd key params = Inr d \<and>
             (\<forall>found. decodeLeaf kd key d found = Inr (found ++ (params |` {key})))"
  using assms
  by (cases "(kd, params key)" rule: hasKind.cases) (auto simp: restrict_single_some)

lemma push_pull_walk:
  "wellKinded schema params \<Longrightarrow>
     \<exists>d. push schema params = Inr d \<and>
         (\<forall>found. pullInto schema d found = Inr (found ++ (params |` set (keysOf schema))))"
  "list_all (\<lambda>f. wellKinded f params) fs \<Longrightarrow>
     \<exists>ds. pushFields fs params = Inr ds \<and> length ds = length fs \<and>
         (\<forall>found. pullFields fs ds found =
                    Inr (found ++ (params |` set (concat (map keysOf fs)))))"
proof (induction schema params and fs params rule: push_pushFields.induct)
  case (1 tag fs params)
  then obtain ds where ds: "pushFields fs params = Inr ds" "length ds = length fs"
    "\<forall>found. pullFields fs ds found = Inr (found ++ (params |` set (concat (map keysOf fs))))"
    by auto
  then show ?case by simp
next
  case (2 key params)
  then show ?case using leaf_roundtrip [of BytesKind params key] by simp
next
  case (3 key params)
  then show ?case using leaf_roundtrip [of IntKind params key] by simp
next
  case (4 noneTag someTag kd key params)
  show ?case
  proof (cases "params key")
    case None
    then show ?thesis by (simp add: restrict_single_none)
  next
    case (Some v)
    with 4 have "hasKind kd (params key)" by simp
    from leaf_roundtrip [of kd params key, OF this] obtain d where
      "encodeLeaf kd key params = Inr d"
      "\<forall>found. decodeLeaf kd key d found = Inr (found ++ (params |` {key}))" by blast
    with Some show ?thesis by simp
  qed
next
  case (5 params)
  then show ?case by simp
next
  case (6 f fs params)
  from 6 obtain d where d: "push f params = Inr d"
    "\<forall>found. pullInto f d found = Inr (found ++ (params |` set (keysOf f)))" by auto
  from 6 d obtain ds where ds: "pushFields fs params = Inr ds" "length ds = length fs"
    "\<forall>found. pullFields fs ds found = Inr (found ++ (params |` set (concat (map keysOf fs))))"
    by auto
  show ?case using d ds by (simp add: restrict_union_add)
qed

lemma encodeLeaf_cong: "p key = q key \<Longrightarrow> encodeLeaf kd key p = encodeLeaf kd key q"
  by (cases kd) simp_all

lemma push_cong:
  "\<forall>k\<in>set (keysOf schema). p k = q k \<Longrightarrow> push schema p = push schema q"
  "\<forall>k\<in>set (concat (map keysOf fs)). p k = q k \<Longrightarrow> pushFields fs p = pushFields fs q"
proof (induction schema p and fs p rule: push_pushFields.induct)
  case (1 tag fs params)
  then show ?case by simp
next
  case (2 key params)
  then show ?case by (simp add: encodeLeaf_cong)
next
  case (3 key params)
  then show ?case by (simp add: encodeLeaf_cong)
next
  case (4 noneTag someTag kd key params)
  then have "params key = q key" by simp
  then show ?case using encodeLeaf_cong [of params key q kd] by (simp split: option.splits)
next
  case (5 params)
  then show ?case by simp
next
  case (6 f fs params)
  have same: "push f params = push f q"
    by (rule "6.IH"(1)) (use "6.prems" in simp)
  show ?case
  proof (cases "push f params")
    case (Inl e)
    moreover from Inl same have "push f q = Inl e" by simp
    ultimately show ?thesis by simp
  next
    case (Inr d)
    moreover from Inr same have "push f q = Inr d" by simp
    moreover have "pushFields fs params = pushFields fs q"
      by (rule "6.IH"(2) [OF Inr]) (use "6.prems" in simp)
    ultimately show ?thesis by simp
  qed
qed

text \<open>
  A datum whose constructor tag differs from the schema's is a \<open>SchemaMismatch\<close> of
  \<open>pull\<close>, which returns no table.
\<close>

lemma pull_tag_mismatch:
  "tag' \<noteq> tag \<Longrightarrow> pull (Constructor tag fs) (DConstr tag' children) = Inl SchemaMismatch"
  by (simp add: pull_def)

text \<open>
  C1. For every schema and every parameter table valid for it, \<open>push\<close> succeeds and
  \<open>pull\<close> of the pushed datum returns exactly the table: no key is dropped, overwritten
  with another value or misassigned. This holds as well for a schema that names a key
  twice, as \<open>poolDefinition\<close> names \<^verbatim>\<open>LpFee\<close>: both leaves are pushed from the one
  entry and pulled back into it.
\<close>
theorem pull_push_roundtrip:
  assumes "validFor schema params"
  shows "\<exists>d. push schema params = Inr d \<and> pull schema d = Inr params"
proof -
  from assms have wk: "wellKinded schema params" and sub: "dom params \<subseteq> set (keysOf schema)"
    by (simp_all add: validFor_def)
  from push_pull_walk(1) [OF wk] obtain d where
    "push schema params = Inr d"
    "\<forall>found. pullInto schema d found = Inr (found ++ (params |` set (keysOf schema)))" by blast
  then show ?thesis using restrict_dom_subset [OF sub] by (simp add: pull_def)
qed

theorem pull_push_roundtrip_witness:
  "validFor poolDefinition examplePoolParameters
   \<and> (\<exists>d. push poolDefinition examplePoolParameters = Inr d
          \<and> pull poolDefinition d = Inr examplePoolParameters)
   \<and> validFor orderDefinition exampleOrderParameters
   \<and> (\<exists>d. push orderDefinition exampleOrderParameters = Inr d
          \<and> pull orderDefinition d = Inr exampleOrderParameters)"
proof -
  have p: "validFor poolDefinition examplePoolParameters"
    by (simp add: validFor_def poolDefinition_def examplePoolParameters_def)
  have q: "validFor orderDefinition exampleOrderParameters"
    by (simp add: validFor_def orderDefinition_def exampleOrderParameters_def)
  show ?thesis
    using p q pull_push_roundtrip [OF p] pull_push_roundtrip [OF q] by simp
qed

section \<open>Order placement\<close>

lemma find_deposit_None:
  "(find (\<lambda>fee. fee_id fee = ''deposit'') fees = None) = (\<forall>fee\<in>set fees. fee_id fee \<noteq> ''deposit'')"
  by (auto simp: find_None_iff)

lemma swapDatumParameters_push:
  "push orderDefinition
     (swapParameters(DepositFee \<mapsto> a, Unknown \<mapsto> b, Expiration := c)) =
   push orderDefinition swapParameters"
  by (rule push_cong(1)) (simp add: orderDefinition_def)

lemma orderDefinition_sell_amount:
  assumes "wellKinded orderDefinition swapParameters"
  shows "\<exists>sellAmount. swapParameters SwapInAmount = Some (VInt sellAmount)"
proof -
  from assms have "hasKind IntKind (swapParameters SwapInAmount)"
    by (simp add: orderDefinition_def)
  then show ?thesis
    by (cases "(IntKind, swapParameters SwapInAmount)" rule: hasKind.cases) simp_all
qed

text \<open>A push that succeeds has found an entry of its kind for every leaf.\<close>

lemma encodeLeaf_hasKind: "encodeLeaf kd key params = Inr d \<Longrightarrow> hasKind kd (params key)"
  by (cases kd) (auto split: option.splits pvalue.splits)

lemma push_wellKinded:
  "push schema params = Inr d \<Longrightarrow> wellKinded schema params"
  "pushFields fs params = Inr ds \<Longrightarrow> list_all (\<lambda>f. wellKinded f params) fs"
proof (induction schema params and fs params arbitrary: d and ds rule: push_pushFields.induct)
  case (1 tag fs params)
  then show ?case by (auto split: sum.splits)
next
  case (2 key params)
  then show ?case by (simp add: encodeLeaf_hasKind)
next
  case (3 key params)
  then show ?case by (simp add: encodeLeaf_hasKind)
next
  case (4 noneTag someTag kd key params)
  then show ?case by (auto split: option.splits sum.splits dest: encodeLeaf_hasKind)
next
  case (5 params)
  then show ?case by simp
next
  case (6 f fs params)
  then show ?case by (auto split: sum.splits)
qed

text \<open>
  So the sum \<^verbatim>\<open>deposit.value + swapInAmount\<close> of the limit-order body always adds two
  bigints: the branch of the model that cannot add them is never taken.
\<close>

lemma buildSwapOrder_clob_adds_bigints:
  "buildSwapOrder_clob this fees getCbor liquidityPool swapParameters spendUtxos' \<noteq>
     Inl (TypeError msg)"
proof (cases "find (\<lambda>fee. fee_id fee = ''deposit'') fees")
  case None
  then show ?thesis by (simp add: buildSwapOrder_clob_def)
next
  case (Some deposit)
  show ?thesis
  proof (cases "push orderDefinition swapParameters")
    case (Inl e)
    with Some show ?thesis
      by (simp add: buildSwapOrder_clob_def Let_def swapDatumParameters_push)
  next
    case (Inr d)
    from orderDefinition_sell_amount [OF push_wellKinded(1) [OF Inr]] obtain sellAmount where
      "swapParameters SwapInAmount = Some (VInt sellAmount)" by blast
    with Some Inr show ?thesis
      by (simp add: buildSwapOrder_clob_def Let_def swapDatumParameters_push)
  qed
qed

text \<open>
  In both class bodies \<open>buildSwapOrder\<close> rejects with \<^verbatim>\<open>Deposit fee not configured.\<close>
  exactly when the fee schedule has no entry whose id is \<^verbatim>\<open>deposit\<close>.
\<close>

lemma buildSwapOrder_clob_rejects_iff:
  "(buildSwapOrder_clob this fees getCbor liquidityPool swapParameters spendUtxos' =
      Inl (Reject ''Deposit fee not configured.''))
   = (\<forall>fee\<in>set fees. fee_id fee \<noteq> ''deposit'')"
  unfolding find_deposit_None [symmetric]
  by (simp add: buildSwapOrder_clob_def Let_def split: option.splits sum.splits pvalue.splits)

lemma buildSwapOrder_rejects_iff:
  "(buildSwapOrder this fees orderCbor buildSwapOrderPayment liquidityPool swapParameters
      spendUtxos' = (Inl (Reject ''Deposit fee not configured.'') :: 'e js_error + PayToAddress list))
   = (\<forall>fee\<in>set fees. fee_id fee \<noteq> ''deposit'')"
  unfolding find_deposit_None [symmetric]
  by (simp add: buildSwapOrder_def Let_def split: option.splits sum.splits)

text \<open>
  When the sold asset is lovelace, the payment of the limit-order body holds the deposit
  plus the sell amount, in lovelace.
\<close>

lemma buildSwapOrder_clob_lovelace_sale:
  assumes "wellKinded orderDefinition swapParameters"
      and "find (\<lambda>fee. fee_id fee = ''deposit'') fees = Some deposit"
      and "\<not> truthy (swapParameters SwapInTokenPolicyId)"
  shows "\<exists>sellAmount d.
           swapParameters SwapInAmount = Some (VInt sellAmount)
         \<and> push orderDefinition swapParameters = Inr d
         \<and> buildSwapOrder_clob this fees getCbor liquidityPool swapParameters spendUtxos' =
             Inr [\<lparr>payAddress = orderAddress this,
                   addressType = Contract,
                   payAssetBalances = [\<lparr>asset = Lovelace, quantity = fee_value deposit + sellAmount\<rparr>],
                   datum = Some (getCbor d),
                   isInlineDatum = True,
                   spendUtxos = spendUtxos'\<rparr>]"
proof -
  from orderDefinition_sell_amount [OF assms(1)] obtain sellAmount where
    sell: "swapParameters SwapInAmount = Some (VInt sellAmount)" by blast
  from push_pull_walk(1) [OF assms(1)] obtain d where
    d: "push orderDefinition swapParameters = Inr d" by blast
  show ?thesis
    using sell d assms(2,3)
    by (simp add: buildSwapOrder_clob_def Let_def swapDatumParameters_push)
qed

text \<open>
  C6. The claim has the payment carry the fixed deposit plus the sell amount. The
  limit-order body of \<open>buildSwapOrder\<close> breaks it when the sold asset is a token: for the
  sale of 5000000 units of a token, the payment holds one balance, 7000000 units of that
  token, and no lovelace. The deposit of 2000000 lovelace has been added to the token
  quantity, although the fee's own description calls it the minimum ADA of the order
  output and the first class body attaches it as a balance of lovelace.
\<close>

theorem buildSwapOrder_clob_token_sale:
  "buildSwapOrder_clob saturnSwap_clob (swapOrderFees (None :: unit LiquidityPool option) None None)
      (\<lambda>d. ''d879'') examplePool tokenSaleParameters [] =
     Inr [\<lparr>payAddress = orderAddress saturnSwap_clob,
           addressType = Contract,
           payAssetBalances = [\<lparr>asset = Asset (Some (VBytes ''ab'')) (Some (VBytes ''cd'')),
                                quantity = 7000000\<rparr>],
           datum = Some ''d879'',
           isInlineDatum = True,
           spendUtxos = []\<rparr>]"
  by (simp add: buildSwapOrder_clob_def swapOrderFees_def orderDefinition_def
      tokenSaleParameters_def Let_def)

section \<open>Order cancellation\<close>

lemma find_Some_first:
  "find P xs = Some x \<Longrightarrow> x \<in> set xs \<and> P x"
  by (induction xs) (auto split: if_splits)

text \<open>
  C7. For every list of prior outputs and every return address, \<open>buildCancelSwapOrder\<close>
  rejects with \<^verbatim>\<open>Unable to find Saturn order UTxO for cancellation.\<close> if and only if no
  output of the list sits at the order address. Otherwise it returns one payment to the
  return address that carries the asset balances of the first output at the order
  address and spends that output with the fixed cancel redeemer and the order script.
  The function returns a value and changes none of its arguments. This holds for any
  constants of the object, so for both class bodies.
\<close>
theorem buildCancelSwapOrder_spends_order:
  "((buildCancelSwapOrder this txOutputs returnAddress =
       (Inl (Reject ''Unable to find Saturn order UTxO for cancellation.'')
          :: 'e js_error + PayToAddress list))
     = (\<forall>u\<in>set txOutputs. address u \<noteq> orderAddress this))
 \<and> ((\<exists>u\<in>set txOutputs. address u = orderAddress this) \<longrightarrow>
      (\<exists>relevantUtxo\<in>set txOutputs.
          address relevantUtxo = orderAddress this
        \<and> find (\<lambda>u. address u = orderAddress this) txOutputs = Some relevantUtxo
        \<and> buildCancelSwapOrder this txOutputs returnAddress =
            (Inr [\<lparr>payAddress = returnAddress,
                  addressType = Base,
                  payAssetBalances = assetBalances relevantUtxo,
                  datum = None,
                  isInlineDatum = False,
                  spendUtxos = [\<lparr>utxo = relevantUtxo,
                                  redeemer = Some (cancelDatum this),
                                  validator = Some (orderScript this),
                                  signer = Some returnAddress\<rparr>]\<rparr>]
               :: 'e js_error + PayToAddress list)))"
proof (intro conjI impI)
  show "((buildCancelSwapOrder this txOutputs returnAddress =
       (Inl (Reject ''Unable to find Saturn order UTxO for cancellation.'')
          :: 'e js_error + PayToAddress list))
     = (\<forall>u\<in>set txOutputs. address u \<noteq> orderAddress this))"
    by (auto simp: buildCancelSwapOrder_def find_None_iff split: option.splits
             dest: find_Some_first)
next
  assume "\<exists>u\<in>set txOutputs. address u = orderAddress this"
  then have "find (\<lambda>u. address u = orderAddress this) txOutputs \<noteq> None"
    by (auto simp: find_None_iff)
  then obtain relevantUtxo where
    found: "find (\<lambda>u. address u = orderAddress this) txOutputs = Some relevantUtxo" by blast
  from find_Some_first [OF found] have
    "relevantUtxo \<in> set txOutputs" "address relevantUtxo = orderAddress this" by simp_all
  with found show "\<exists>relevantUtxo\<in>set txOutputs.
          address relevantUtxo = orderAddress this
        \<and> find (\<lambda>u. address u = orderAddress this) txOutputs = Some relevantUtxo
        \<and> buildCancelSwapOrder this txOutputs returnAddress =
            (Inr [\<lparr>payAddress = returnAddress,
                  addressType = Base,
                  payAssetBalances = assetBalances relevantUtxo,
                  datum = None,
                  isInlineDatum = False,
                  spendUtxos = [\<lparr>utxo = relevantUtxo,
                                  redeemer = Some (cancelDatum this),
                                  validator = Some (orderScript this),
                                  signer = Some returnAddress\<rparr>]\<rparr>]
               :: 'e js_error + PayToAddress list)"
    by (auto simp: buildCancelSwapOrder_def)
qed

theorem buildCancelSwapOrder_spends_order_witness:
  "buildCancelSwapOrder saturnSwap_clob [walletUtxo] ''addr1_return'' =
     (Inl (Reject ''Unable to find Saturn order UTxO for cancellation.'')
        :: unit js_error + PayToAddress list)
 \<and> buildCancelSwapOrder saturnSwap_clob [walletUtxo, orderUtxo] ''addr1_return'' =
     (Inr [\<lparr>payAddress = ''addr1_return'',
           addressType = Base,
           payAssetBalances = [\<lparr>asset = Lovelace, quantity = 7000000\<rparr>],
           datum = None,
           isInlineDatum = False,
           spendUtxos = [\<lparr>utxo = orderUtxo,
                           redeemer = Some ''d87a8100'',
                           validator = Some \<lparr>scriptType = ''PlutusV2'',
                             script = ''3cf991c2d5b47006c2106c105332456af4d88321301f292f434ad01b''\<rparr>,
                           signer = Some ''addr1_return''\<rparr>]\<rparr>]
        :: unit js_error + PayToAddress list)"
proof -
  have none: "\<forall>u\<in>set [walletUtxo]. address u \<noteq> orderAddress saturnSwap_clob"
    by (simp add: walletUtxo_def saturnSwap_clob_def)
  have some: "\<exists>u\<in>set [walletUtxo, orderUtxo]. address u = orderAddress saturnSwap_clob"
    by (simp add: orderUtxo_def)
  have first: "find (\<lambda>u. address u = orderAddress saturnSwap_clob) [walletUtxo, orderUtxo] =
      Some orderUtxo"
    by (simp add: walletUtxo_def orderUtxo_def saturnSwap_clob_def)
  have vals: "cancelDatum saturnSwap_clob = ''d87a8100''"
    "orderScript saturnSwap_clob = \<lparr>scriptType = ''PlutusV2'',
       script = ''3cf991c2d5b47006c2106c105332456af4d88321301f292f434ad01b''\<rparr>"
    "assetBalances orderUtxo = [\<lparr>asset = Lovelace, quantity = 7000000\<rparr>]"
    by (simp_all add: saturnSwap_clob_def orderUtxo_def)
  from buildCancelSwapOrder_spends_order
         [of saturnSwap_clob "[walletUtxo]" "''addr1_return''", where ?'e = unit]
       buildCancelSwapOrder_spends_order
         [of saturnSwap_clob "[walletUtxo, orderUtxo]" "''addr1_return''", where ?'e = unit]
  show ?thesis using none some first vals by auto
qed

section \<open>Decoding a datum of another constructor\<close>

text \<open>
  C9, as amended. For every CBOR text that parses to a constructor whose index differs
  from the expected one (0 for the swap datum, 2 for the control datum),
  \<open>decodeSwapDatum\<close> and \<open>decodeControlDatum\<close> return \<^verbatim>\<open>null\<close> and no partial record; no
  failure reaches the caller.
\<close>
theorem decode_wrong_tag_is_null:
  assumes "dataFrom datumCbor = Inr (Constr index fs)"
  shows "(index \<noteq> 0 \<longrightarrow>
            decodeSwapDatum dataFrom bigInt datumCbor = (Inr None :: 'x js_error + SwapDatum option))
       \<and> (index \<noteq> 2 \<longrightarrow>
            decodeControlDatum dataFrom bigInt datumCbor =
              (Inr None :: 'x js_error + ControlDatum option))"
  using assms
  by (simp add: decodeSwapDatum_def decodeSwapDatum_try_def
                decodeControlDatum_def decodeControlDatum_try_def)

theorem decode_wrong_tag_is_null_witness:
  "decodeSwapDatum (\<lambda>cbor. Inr (Constr 1 []) :: unit + Data) (\<lambda>d. Inr 0) ''d87a80'' =
     (Inr None :: unit js_error + SwapDatum option)
 \<and> decodeControlDatum (\<lambda>cbor. Inr (Constr 1 []) :: unit + Data) (\<lambda>d. Inr 0) ''d87a80'' =
     (Inr None :: unit js_error + ControlDatum option)"
  using decode_wrong_tag_is_null
          [of "\<lambda>cbor. Inr (Constr 1 []) :: unit + Data" "''d87a80''" 1 "[]" "\<lambda>d. Inr 0",
           where ?'x = unit]
  by simp

text \<open>
  The claim as stated fails: given a datum of constructor 0, \<open>decodeControlDatum\<close>
  answers \<^verbatim>\<open>null\<close> where the claim has a failure raised to the caller, and so does
  \<open>decodeSwapDatum\<close> given a datum of constructor 2.
\<close>

theorem decode_wrong_tag_counterexample:
  "decodeControlDatum (\<lambda>cbor. Inr (Constr 0 []) :: unit + Data) (\<lambda>d. Inr 0) ''d87980'' =
     (Inr None :: unit js_error + ControlDatum option)
 \<and> decodeSwapDatum (\<lambda>cbor. Inr (Constr 2 []) :: unit + Data) (\<lambda>d. Inr 0) ''d87b80'' =
     (Inr None :: unit js_error + SwapDatum option)"
  by (simp add: decodeSwapDatum_def decodeSwapDatum_try_def
                decodeControlDatum_def decodeControlDatum_try_def)

section \<open>The deposit fee\<close>

text \<open>
  C10. For every input, given or omitted, \<open>swapOrderFees\<close> returns a list of exactly one
  fee, whose id is \<^verbatim>\<open>deposit\<close> and whose value is 2000000 lovelace. So the search for the
  deposit in \<open>buildSwapOrder\<close> always finds it, and in neither class body does
  \<open>buildSwapOrder\<close> reject with \<^verbatim>\<open>Deposit fee not configured.\<close>, whatever the pool, the
  parameters and the collaborators.
\<close>
theorem deposit_fee_always_configured:
  "(\<exists>fee. swapOrderFees liquidityPool swapInToken swapInAmount = [fee]
          \<and> fee_id fee = ''deposit'' \<and> fee_value fee = 2000000)
 \<and> find (\<lambda>fee. fee_id fee = ''deposit'')
      (swapOrderFees (None :: 'n LiquidityPool option) None None) \<noteq> None
 \<and> buildSwapOrder this (swapOrderFees (None :: 'n LiquidityPool option) None None)
      orderCbor buildSwapOrderPayment pool swapParameters spendUtxos' \<noteq>
      Inl (Reject ''Deposit fee not configured.'')
 \<and> buildSwapOrder_clob this (swapOrderFees (None :: 'n LiquidityPool option) None None)
      getCbor pool swapParameters spendUtxos' \<noteq>
      Inl (Reject ''Deposit fee not configured.'')"
  by (simp add: swapOrderFees_def buildSwapOrder_def buildSwapOrder_clob_def Let_def
           split: sum.splits option.splits pvalue.splits)

end
